theory Spec2Isabelle
  imports Main
begin

section \<open>JavaScript values and the browser the cache runs in\<close>

text \<open>
  The values the cache holds are the ones JSON represents exactly: null, booleans, numbers,
  strings, arrays and objects. Numbers are integers (timestamps in milliseconds, minutes);
  an object is the list of its own properties in enumeration order. JavaScript's
  \<^verbatim>\<open>undefined\<close> is not a JSON value: where an expression of the source may yield it
  (reading a property that is not there), the model yields \<open>None\<close>.
\<close>

datatype json =
    JNull
  | JBool bool
  | JNum int
  | JStr string
  | JArr "json list"
  | JObj "(string \<times> json) list"

datatype error = SyntaxError | TypeError | QuotaExceededError

text \<open>
  The text kept by \<^verbatim>\<open>window.localStorage\<close> is represented by what
  \<^verbatim>\<open>JSON.parse\<close> makes of it: the JSON value it denotes, or a text that is not JSON
  and that \<^verbatim>\<open>JSON.parse\<close> rejects with \<^verbatim>\<open>SyntaxError\<close>.
  Item names are taken to differ from the names of the storage object's own members
  (\<^verbatim>\<open>length\<close>, \<^verbatim>\<open>getItem\<close> and the like).
\<close>

datatype storedText = JsonText json | NotJson string

text \<open>\<^verbatim>\<open>!!x\<close>: null, false, 0 and the empty string are falsy, everything else is truthy.\<close>

fun truthy :: "json \<Rightarrow> bool" where
  "truthy JNull = False"
| "truthy (JBool b) = b"
| "truthy (JNum n) = (n \<noteq> 0)"
| "truthy (JStr s) = (s \<noteq> [])"
| "truthy (JArr xs) = True"
| "truthy (JObj kvs) = True"

text \<open>
  \<^verbatim>\<open>x.name\<close> for a truthy \<open>x\<close> and a name that no prototype defines
  (\<^verbatim>\<open>expires\<close>, \<^verbatim>\<open>value\<close>): the own property of an object, undefined otherwise.
\<close>

fun getProp :: "json \<Rightarrow> string \<Rightarrow> json option" where
  "getProp (JObj kvs) name = map_of kvs name"
| "getProp _ name = None"

text \<open>
  \<^verbatim>\<open>x.hasOwnProperty('expires')\<close>. The method comes from the prototype; an object
  parsed from JSON that has an own property called \<^verbatim>\<open>hasOwnProperty\<close> shadows it
  with a value that is not a function, and the call raises. Arrays and strings own their
  indices and \<^verbatim>\<open>length\<close> only.
\<close>

fun hasOwnProperty_expires :: "json \<Rightarrow> error + bool" where
  "hasOwnProperty_expires (JObj kvs) =
     (if map_of kvs ''hasOwnProperty'' \<noteq> None then Inl TypeError
      else Inr (map_of kvs ''expires'' \<noteq> None))"
| "hasOwnProperty_expires JNull = Inl TypeError"
| "hasOwnProperty_expires _ = Inr False"

text \<open>
  \<open>Show\<close> is \<^verbatim>\<open>$ionicLoading.show({noBackdrop: true})\<close>, \<open>Hide\<close> is
  \<^verbatim>\<open>$ionicLoading.hide()\<close>, \<open>Alert m\<close> is \<^verbatim>\<open>alert(m)\<close> and \<open>Fetch ps\<close> is a
  call of the fetching strategy with the parameters \<open>ps\<close>.
\<close>

datatype event = Show | Hide | Alert string | Fetch "json list"

text \<open>
  The browser: the items of \<^verbatim>\<open>window.localStorage\<close>, which writes it accepts (a
  write it refuses raises \<^verbatim>\<open>QuotaExceededError\<close>), the value of
  \<^verbatim>\<open>Date.now()\<close>, the outcome of \<^verbatim>\<open>x <= n\<close> for a string, array or object
  \<open>x\<close> and a number \<open>n\<close> (JavaScript's coercion to a number, left to the platform), and
  the calls made to the collaborators so far.
\<close>

record world =
  localStorage :: "string \<rightharpoonup> storedText"
  accepts :: "string \<Rightarrow> storedText \<Rightarrow> bool"
  clock :: int
  coerce_le :: "json \<Rightarrow> int \<Rightarrow> bool"
  trace :: "event list"

text \<open>\<^verbatim>\<open>window.localStorage[key] = t\<close>\<close>

definition storage_write :: "string \<Rightarrow> storedText \<Rightarrow> world \<Rightarrow> error + world" where
  "storage_write k t w =
     (if accepts w k t then Inr (w\<lparr>localStorage := (localStorage w)(k \<mapsto> t)\<rparr>)
      else Inl QuotaExceededError)"

text \<open>
  \<^verbatim>\<open>JSON.parse(window.localStorage[key])\<close>: for a key with no item the argument is
  undefined, which is read as the text \<^verbatim>\<open>undefined\<close>, and that is not JSON.
\<close>

definition JSON_parse :: "storedText option \<Rightarrow> error + json" where
  "JSON_parse t =
     (case t of
        None \<Rightarrow> Inl SyntaxError
      | Some (JsonText v) \<Rightarrow> Inr v
      | Some (NotJson s) \<Rightarrow> Inl SyntaxError)"

definition JSON_stringify :: "json \<Rightarrow> storedText" where
  "JSON_stringify v = JsonText v"

text \<open>\<^verbatim>\<open>x <= Date.now()\<close>: null counts as 0, false as 0, true as 1.\<close>

fun le_now :: "world \<Rightarrow> json \<Rightarrow> bool" where
  "le_now w (JNum e) = (e \<le> clock w)"
| "le_now w JNull = (0 \<le> clock w)"
| "le_now w (JBool b) = ((if b then 1 else 0) \<le> clock w)"
| "le_now w x = coerce_le w x (clock w)"

section \<open>SimpleCache\<close>

record SimpleCache =
  defaultCacheMinutes :: int

text \<open>\<^verbatim>\<open>parseInt(n, 10)\<close> of an integer is the integer.\<close>

definition parseInt :: "int \<Rightarrow> int" where
  "parseInt n = n"

definition isExpired :: "world \<Rightarrow> json \<Rightarrow> error + bool" where
  "isExpired w dataFromCache =
     (if \<not> truthy dataFromCache then Inr True
      else (case hasOwnProperty_expires dataFromCache of
              Inl e \<Rightarrow> Inl e
            | Inr own \<Rightarrow>
                Inr (own \<and> (case getProp dataFromCache ''expires'' of
                               None \<Rightarrow> False
                             | Some x \<Rightarrow> le_now w x))))"

definition applyExpirationDate :: "world \<Rightarrow> json \<Rightarrow> int \<Rightarrow> json" where
  "applyExpirationDate w valueToCache cacheMinutes =
     (if truthy valueToCache \<and>
         (case getProp valueToCache ''expires'' of None \<Rightarrow> False | Some x \<Rightarrow> truthy x)
      then valueToCache
      else JObj [(''expires'', JNum (clock w + 60000 * cacheMinutes)),
                 (''value'', valueToCache)])"

text \<open>The result is \<open>Some JNull\<close> for null and \<open>None\<close> for undefined.\<close>

definition SimpleCache_get :: "SimpleCache \<Rightarrow> string \<Rightarrow> world \<Rightarrow> error + json option" where
  "SimpleCache_get c k w =
     (case JSON_parse (localStorage w k) of
        Inl e \<Rightarrow> Inl e
      | Inr data \<Rightarrow>
          (if \<not> truthy data then Inr (Some JNull)
           else (case isExpired w data of
                   Inl e \<Rightarrow> Inl e
                 | Inr True \<Rightarrow> Inr (Some JNull)
                 | Inr False \<Rightarrow> Inr (getProp data ''value''))))"

text \<open>
  The minutes \<^verbatim>\<open>set\<close> takes when the call gives none:
  \<^verbatim>\<open>24 * parseInt(this.defaultCacheMinutes, 10)\<close>.
\<close>

definition defaultMinutes :: "SimpleCache \<Rightarrow> int" where
  "defaultMinutes c = 24 * parseInt (defaultCacheMinutes c)"

definition SimpleCache_set :: "SimpleCache \<Rightarrow> string \<Rightarrow> json \<Rightarrow> int option \<Rightarrow> world \<Rightarrow> error + world" where
  "SimpleCache_set c k v cacheMinutes w =
     (let cacheMinutes' = (case cacheMinutes of None \<Rightarrow> defaultMinutes c | Some m \<Rightarrow> m)
      in storage_write k (JSON_stringify (applyExpirationDate w v cacheMinutes')) w)"

definition forever :: "SimpleCache \<Rightarrow> string \<Rightarrow> json \<Rightarrow> world \<Rightarrow> error + world" where
  "forever c k v w = storage_write k (JSON_stringify (JObj [(''value'', v)])) w"

text \<open>\<^verbatim>\<open>window.localStorage[key] = null\<close> stores the text \<^verbatim>\<open>null\<close>.\<close>

definition forget :: "SimpleCache \<Rightarrow> string \<Rightarrow> world \<Rightarrow> error + world" where
  "forget c k w = storage_write k (JsonText JNull) w"

section \<open>AngularOneDataFetcher\<close>

text \<open>
  What the promise of the fetching strategy does: it resolves with data, rejects with a
  reason, or is never settled. The strategy gives this outcome for the parameters it is
  called with, together with the milliseconds that pass before the promise is settled.
\<close>

datatype fetched = Resolves json | Rejects json | NeverSettles

text \<open>
  \<^verbatim>\<open>this._cacheDuration\<close>: null (the caching service's default), false (never
  expires) or a number.
\<close>

datatype duration = Default | Never | Custom int

text \<open>
  What a caller of \<^verbatim>\<open>refresh\<close> or \<^verbatim>\<open>get\<close> observes: the promise is resolved
  with data, rejected with the reason the fetching strategy gave, rejected with an
  exception raised in a \<^verbatim>\<open>then\<close> callback, or never settled; or an exception
  leaves the executor given to \<^verbatim>\<open>$q\<close> before anything is fetched.
\<close>

datatype promise =
    Resolved json
  | Rejected json
  | RejectedWith error
  | Pending
  | Thrown error

text \<open>
  The fetcher holds the constructor's arguments; \<^verbatim>\<open>$ionicLoading\<close> is present or
  not. \<^verbatim>\<open>lodash.snakecase\<close>, which the module imports, is carried along as a field.
\<close>

record fetcher =
  fetchingStrategy :: "json list \<Rightarrow> fetched \<times> nat"
  key :: "string option"
  cacheService :: "SimpleCache option"
  ionicLoading :: bool
  cacheDuration :: duration
  snakeCase :: "json \<Rightarrow> string"

text \<open>
  \<^verbatim>\<open>lodash.isempty\<close>: an array or a string is empty when its length is 0, an object
  when it has no own enumerable property; null, undefined, booleans and numbers are empty.
\<close>

fun isEmpty :: "json \<Rightarrow> bool" where
  "isEmpty (JArr xs) = (xs = [])"
| "isEmpty (JStr s) = (s = [])"
| "isEmpty (JObj kvs) = (kvs = [])"
| "isEmpty _ = True"

definition cacheDuration_hours :: "int \<Rightarrow> fetcher \<Rightarrow> fetcher" where
  "cacheDuration_hours hours f = f\<lparr>cacheDuration := Custom (parseInt hours)\<rparr>"

definition neverExpire :: "fetcher \<Rightarrow> fetcher" where
  "neverExpire f = f\<lparr>cacheDuration := Never\<rparr>"

definition record_event :: "event \<Rightarrow> world \<Rightarrow> world" where
  "record_event e w = w\<lparr>trace := trace w @ [e]\<rparr>"

text \<open>
  \<^verbatim>\<open>this._key\<close> followed by \<^verbatim>\<open>'_' + _snakeCase(param)\<close> for each parameter in
  turn; a null key reads \<^verbatim>\<open>null\<close> as a storage key.
\<close>

definition buildKey :: "fetcher \<Rightarrow> json list \<Rightarrow> string" where
  "buildKey f params =
     foldl (\<lambda>result param. result @ ''_'' @ snakeCase f param)
       (case key f of None \<Rightarrow> ''null'' | Some k \<Rightarrow> k) params"

definition saveToCache :: "fetcher \<Rightarrow> json \<Rightarrow> json list \<Rightarrow> world \<Rightarrow> error + world" where
  "saveToCache f data params w =
     (case cacheService f of
        None \<Rightarrow> Inr w
      | Some c \<Rightarrow>
          (let k = buildKey f params
           in case cacheDuration f of
                Never \<Rightarrow> forever c k data w
              | Default \<Rightarrow> SimpleCache_set c k data None w
              | Custom m \<Rightarrow> SimpleCache_set c k data (Some m) w))"

definition getFromCache :: "fetcher \<Rightarrow> json list \<Rightarrow> world \<Rightarrow> error + json option" where
  "getFromCache f params w =
     (case cacheService f of
        None \<Rightarrow> Inr (Some (JBool False))
      | Some c \<Rightarrow> SimpleCache_get c (buildKey f params) w)"

definition alertMessage :: string where
  "alertMessage = ''Error retrieving data. Please make sure you are connected to the Internet.''"

definition fetchFromOrigin :: "fetcher \<Rightarrow> json list \<Rightarrow> world \<Rightarrow> promise \<times> world" where
  "fetchFromOrigin f params w =
     (let w1 = (if ionicLoading f then record_event Show w else w);
          w2 = record_event (Fetch params) w1;
          (outcome, elapsed) = fetchingStrategy f params;
          w3 = w2\<lparr>clock := clock w2 + int elapsed\<rparr>;
          w4 = (if ionicLoading f then record_event Hide w3 else w3)
      in case outcome of
           Resolves data \<Rightarrow> (Resolved data, w4)
         | Rejects result \<Rightarrow> (Rejected result, record_event (Alert alertMessage) w4)
         | NeverSettles \<Rightarrow> (Pending, w2))"

definition refresh :: "fetcher \<Rightarrow> json list \<Rightarrow> world \<Rightarrow> promise \<times> world" where
  "refresh f params w =
     (case fetchFromOrigin f params w of
        (Resolved data, w1) \<Rightarrow>
          (case saveToCache f data params w1 of
             Inl e \<Rightarrow> (RejectedWith e, w1)
           | Inr w2 \<Rightarrow> (Resolved data, w2))
      | (p, w1) \<Rightarrow> (p, w1))"

text \<open>
  \<^verbatim>\<open>get\<close>. The inner case is the test \<^verbatim>\<open>data && !_isEmpty(data)\<close>, which gives
  the cached data to resolve with or nothing. When saving raises inside the
  \<^verbatim>\<open>then\<close> callback, \<^verbatim>\<open>resolve\<close> is not reached: the exception rejects the
  promise that \<^verbatim>\<open>then\<close> returned, which nobody holds, and the promise of
  \<^verbatim>\<open>get\<close> is never settled.
\<close>

definition fetcher_get :: "fetcher \<Rightarrow> json list \<Rightarrow> world \<Rightarrow> promise \<times> world" where
  "fetcher_get f params w =
     (case getFromCache f params w of
        Inl e \<Rightarrow> (Thrown e, w)
      | Inr cached \<Rightarrow>
          (case (case cached of
                   None \<Rightarrow> None
                 | Some data \<Rightarrow> if truthy data \<and> \<not> isEmpty data then Some data else None) of
             Some data \<Rightarrow> (Resolved data, w)
           | None \<Rightarrow>
               (case fetchFromOrigin f params w of
                  (Resolved data, w1) \<Rightarrow>
                    (case saveToCache f data params w1 of
                       Inl e \<Rightarrow> (Pending, w1)
                     | Inr w2 \<Rightarrow> (Resolved data, w2))
                | (p, w1) \<Rightarrow> (p, w1))))"

section \<open>Notions used to state the properties\<close>

text \<open>The entry \<^verbatim>\<open>{expires: e, value: v}\<close> that \<^verbatim>\<open>_applyExpirationDate\<close> builds.\<close>

definition cacheEntry :: "int \<Rightarrow> json \<Rightarrow> json" where
  "cacheEntry e v = JObj [(''expires'', JNum e), (''value'', v)]"

text \<open>
  A value that \<^verbatim>\<open>_applyExpirationDate\<close> returns as it is:
  \<^verbatim>\<open>valueToCache && valueToCache.expires\<close>.
\<close>

definition alreadyWrapped :: "json \<Rightarrow> bool" where
  "alreadyWrapped v =
     (truthy v \<and> (case getProp v ''expires'' of None \<Rightarrow> False | Some x \<Rightarrow> truthy x))"

text \<open>The \<^verbatim>\<open>expires\<close> field of what is stored under a key, if any.\<close>

definition persistedExpires :: "world \<Rightarrow> string \<Rightarrow> json option" where
  "persistedExpires w k =
     (case localStorage w k of
        Some (JsonText d) \<Rightarrow> getProp d ''expires''
      | _ \<Rightarrow> None)"

text \<open>What \<^verbatim>\<open>get\<close> of the fetcher takes for a miss: the negation of
  \<^verbatim>\<open>data && !_isEmpty(data)\<close>.\<close>

definition isMiss :: "json option \<Rightarrow> bool" where
  "isMiss cached =
     (case cached of None \<Rightarrow> True | Some data \<Rightarrow> \<not> (truthy data \<and> \<not> isEmpty data))"

text \<open>Null, booleans and numbers: the primitives that are not array-like.\<close>

definition nonCollectionPrimitive :: "json \<Rightarrow> bool" where
  "nonCollectionPrimitive v =
     (case v of JNull \<Rightarrow> True | JBool b \<Rightarrow> True | JNum n \<Rightarrow> True | _ \<Rightarrow> False)"

text \<open>Counting the calls to the collaborators.\<close>

fun isShow :: "event \<Rightarrow> bool" where
  "isShow Show = True"
| "isShow _ = False"

fun isHide :: "event \<Rightarrow> bool" where
  "isHide Hide = True"
| "isHide _ = False"

fun isAlert :: "event \<Rightarrow> bool" where
  "isAlert (Alert m) = True"
| "isAlert _ = False"

fun isFetch :: "event \<Rightarrow> bool" where
  "isFetch (Fetch ps) = True"
| "isFetch _ = False"

definition calls :: "(event \<Rightarrow> bool) \<Rightarrow> world \<Rightarrow> nat" where
  "calls P w = length (filter P (trace w))"

definition shown :: "fetcher \<Rightarrow> event list" where
  "shown f = (if ionicLoading f then [Show] else [])"

definition hidden :: "fetcher \<Rightarrow> event list" where
  "hidden f = (if ionicLoading f then [Hide] else [])"

subsection \<open>Concrete stores, browsers and fetchers\<close>

definition store1 :: SimpleCache where
  "store1 = \<lparr>defaultCacheMinutes = 1\<rparr>"

definition store0 :: SimpleCache where
  "store0 = \<lparr>defaultCacheMinutes = 0\<rparr>"

text \<open>A browser with nothing stored that accepts every write.\<close>

definition emptyWorld :: "int \<Rightarrow> world" where
  "emptyWorld now =
     \<lparr>localStorage = Map.empty, accepts = (\<lambda>k t. True), clock = now,
      coerce_le = (\<lambda>x n. False), trace = []\<rparr>"

text \<open>The same browser with one item stored.\<close>

definition holding :: "int \<Rightarrow> string \<Rightarrow> json \<Rightarrow> world" where
  "holding now k d = (emptyWorld now)\<lparr>localStorage := [k \<mapsto> JsonText d]\<rparr>"

text \<open>
  A browser at time 1000 with one item under \<^verbatim>\<open>users_42\<close>, which accepts every
  write or refuses every write.
\<close>

definition worldWith :: "storedText \<Rightarrow> bool \<Rightarrow> world" where
  "worldWith t writable =
     \<lparr>localStorage = [''users_42'' \<mapsto> t], accepts = (\<lambda>k t. writable), clock = 1000,
      coerce_le = (\<lambda>x n. False), trace = []\<rparr>"

text \<open>On a string of digits \<^verbatim>\<open>lodash.snakecase\<close> gives the string back.\<close>

definition demoSnakeCase :: "json \<Rightarrow> string" where
  "demoSnakeCase p = (case p of JStr s \<Rightarrow> s | _ \<Rightarrow> [])"

text \<open>
  A fetcher with base key \<^verbatim>\<open>users\<close>, a store, a loading indicator and a strategy
  whose promise settles in the given way after 250 milliseconds.
\<close>

definition demoFetcher :: "fetched \<Rightarrow> fetcher" where
  "demoFetcher outcome =
     \<lparr>fetchingStrategy = (\<lambda>ps. (outcome, 250)), key = Some ''users'',
      cacheService = Some store1, ionicLoading = True, cacheDuration = Default,
      snakeCase = demoSnakeCase\<rparr>"

section \<open>Properties of SimpleCache\<close>

lemma defaultMinutes_value: "defaultMinutes c = 24 * defaultCacheMinutes c"
  by (simp add: defaultMinutes_def parseInt_def)

lemma applyExpirationDate_plain:
  "\<not> alreadyWrapped v \<Longrightarrow> applyExpirationDate w v m = cacheEntry (clock w + 60000 * m) v"
  by (auto simp add: applyExpirationDate_def alreadyWrapped_def cacheEntry_def)

lemma applyExpirationDate_wrapped:
  "alreadyWrapped v \<Longrightarrow> applyExpirationDate w v m = v"
  by (auto simp add: applyExpirationDate_def alreadyWrapped_def)

lemma isExpired_cacheEntry: "isExpired w (cacheEntry e v) = Inr (e \<le> clock w)"
  by (simp add: isExpired_def cacheEntry_def)

lemma isExpired_object:
  "map_of kvs ''hasOwnProperty'' = None \<Longrightarrow> map_of kvs ''expires'' = Some (JNum e) \<Longrightarrow>
   isExpired w (JObj kvs) = Inr (e \<le> clock w)"
  by (simp add: isExpired_def)

lemma isExpired_no_expires:
  "map_of kvs ''hasOwnProperty'' = None \<Longrightarrow> map_of kvs ''expires'' = None \<Longrightarrow>
   isExpired w (JObj kvs) = Inr False"
  by (simp add: isExpired_def)

lemma get_cacheEntry:
  "localStorage w k = Some (JsonText (cacheEntry e v)) \<Longrightarrow>
   SimpleCache_get c k w = Inr (if e \<le> clock w then Some JNull else Some v)"
  by (simp add: SimpleCache_get_def JSON_parse_def isExpired_cacheEntry)
     (simp add: cacheEntry_def)

lemma get_no_item: "localStorage w k = None \<Longrightarrow> SimpleCache_get c k w = Inl SyntaxError"
  by (simp add: SimpleCache_get_def JSON_parse_def)

lemma get_not_json: "localStorage w k = Some (NotJson s) \<Longrightarrow> SimpleCache_get c k w = Inl SyntaxError"
  by (simp add: SimpleCache_get_def JSON_parse_def)

lemma get_falsy:
  "localStorage w k = Some (JsonText d) \<Longrightarrow> \<not> truthy d \<Longrightarrow> SimpleCache_get c k w = Inr (Some JNull)"
  by (simp add: SimpleCache_get_def JSON_parse_def)

lemma set_plain:
  "\<not> alreadyWrapped v \<Longrightarrow>
   SimpleCache_set c k v m w =
   storage_write k
     (JsonText (cacheEntry
        (clock w + 60000 * (case m of None \<Rightarrow> defaultMinutes c | Some t \<Rightarrow> t)) v)) w"
  by (simp add: SimpleCache_set_def JSON_stringify_def applyExpirationDate_plain)

lemma storage_write_Inr:
  "storage_write k t w = Inr w' \<Longrightarrow> w' = w\<lparr>localStorage := (localStorage w)(k \<mapsto> t)\<rparr>"
  by (auto simp: storage_write_def split: if_splits)

lemma forget_then_get:
  "forget c k w = Inr w' \<Longrightarrow> SimpleCache_get c k w' = Inr (Some JNull)"
  by (auto simp: forget_def SimpleCache_get_def JSON_parse_def dest: storage_write_Inr)

text \<open>
  Claim C1, as the code has it. For a value \<open>v\<close> that is not already wrapped (it is falsy
  or has no truthy \<^verbatim>\<open>expires\<close> field), \<^verbatim>\<open>set(k, v)\<close> without minutes, when the
  storage accepts the write, puts under \<open>k\<close> the entry with value \<open>v\<close> that expires at
  \<open>now + 60000 * m\<close>, replacing what was there and leaving the other items alone; \<open>m\<close> is
  the number of minutes the store takes from its default, and the call does what
  \<^verbatim>\<open>set(k, v, m)\<close> does.
\<close>

theorem set_without_minutes:
  assumes "\<not> alreadyWrapped v"
    and "accepts w k (JSON_stringify (cacheEntry (clock w + 60000 * defaultMinutes c) v))"
  shows "SimpleCache_set c k v None w =
           Inr (w\<lparr>localStorage := (localStorage w)
                  (k \<mapsto> JSON_stringify (cacheEntry (clock w + 60000 * defaultMinutes c) v))\<rparr>)
       \<and> SimpleCache_set c k v None w = SimpleCache_set c k v (Some (defaultMinutes c)) w"
  using assms by (simp add: set_plain storage_write_def JSON_stringify_def)

theorem set_without_minutes_witness:
  "\<not> alreadyWrapped (JStr ''v'') \<and>
   SimpleCache_set store1 ''k'' (JStr ''v'') None (emptyWorld 7) =
     Inr (holding 7 ''k'' (cacheEntry (7 + 60000 * defaultMinutes store1) (JStr ''v'')))"
proof -
  have h1: "\<not> alreadyWrapped (JStr ''v'')"
    by (simp add: alreadyWrapped_def)
  have h2: "accepts (emptyWorld 7) ''k''
              (JSON_stringify (cacheEntry (clock (emptyWorld 7) + 60000 * defaultMinutes store1)
                 (JStr ''v'')))"
    by (simp add: emptyWorld_def)
  have "clock (emptyWorld 7) = 7" and "localStorage (emptyWorld 7) = Map.empty"
    by (simp_all add: emptyWorld_def)
  with set_without_minutes [OF h1 h2] h1 show ?thesis
    by (simp add: holding_def JSON_stringify_def)
qed

text \<open>
  Claim C1 as stated fails twice. A store with default 1, at time 0, given the plain value
  \<^verbatim>\<open>"v"\<close>, stores an entry that expires at 1440000 and not at 60000. A store with
  default 0, at time 1000, given \<^verbatim>\<open>{expires: 5}\<close>, stores that object as it is, and
  its \<^verbatim>\<open>expires\<close> is 5 and not 1000.
\<close>

theorem set_without_minutes_counterexample:
  "SimpleCache_set store1 ''k'' (JStr ''v'') None (emptyWorld 0)
     = Inr (holding 0 ''k'' (cacheEntry 1440000 (JStr ''v'')))
   \<and> persistedExpires (holding 0 ''k'' (cacheEntry 1440000 (JStr ''v''))) ''k''
       = Some (JNum 1440000)
   \<and> (1440000 :: int) \<noteq> clock (emptyWorld 0) + defaultCacheMinutes store1 * 60000
   \<and> SimpleCache_set store0 ''k'' (JObj [(''expires'', JNum 5)]) None (emptyWorld 1000)
       = Inr (holding 1000 ''k'' (JObj [(''expires'', JNum 5)]))
   \<and> persistedExpires (holding 1000 ''k'' (JObj [(''expires'', JNum 5)])) ''k''
       = Some (JNum 5)
   \<and> (5 :: int) \<noteq> clock (emptyWorld 1000) + defaultCacheMinutes store0 * 60000"
  by (simp add: SimpleCache_set_def storage_write_def JSON_stringify_def applyExpirationDate_def
      defaultMinutes_def parseInt_def emptyWorld_def holding_def persistedExpires_def
      cacheEntry_def store1_def store0_def)

text \<open>
  Claim C2 at a key that was never written, and at a stored text that is not JSON:
  \<^verbatim>\<open>get\<close> raises \<^verbatim>\<open>SyntaxError\<close> instead of returning null, and the fetcher's
  \<^verbatim>\<open>get\<close> on such a key lets the exception out without calling the fetching strategy.
\<close>

theorem get_raises_on_unparseable:
  "SimpleCache_get store1 ''users_42'' (emptyWorld 0) = Inl SyntaxError
   \<and> SimpleCache_get store1 ''users_42'' (worldWith (NotJson ''{oops'') True) = Inl SyntaxError
   \<and> fetcher_get (demoFetcher (Resolves (JStr ''d''))) [JStr ''42''] (emptyWorld 0)
       = (Thrown SyntaxError, emptyWorld 0)
   \<and> trace (emptyWorld 0) = []"
  by (simp add: get_no_item get_not_json fetcher_get_def getFromCache_def buildKey_def
      demoFetcher_def demoSnakeCase_def emptyWorld_def worldWith_def)

text \<open>
  Claim C4. An entry with an expiration timestamp is expired exactly when the current time
  has reached the timestamp: an entry that expires now is expired, one that expires a
  millisecond later is not; \<^verbatim>\<open>get\<close> returns null for an expired entry and the value
  of one that is not.
\<close>

theorem expired_iff_reached:
  "isExpired w (cacheEntry e v) = Inr (clock w \<ge> e)
   \<and> isExpired (w\<lparr>clock := now\<rparr>) (cacheEntry now v) = Inr True
   \<and> isExpired (w\<lparr>clock := now\<rparr>) (cacheEntry (now + 1) v) = Inr False
   \<and> (localStorage w k = Some (JSON_stringify (cacheEntry e v)) \<longrightarrow> clock w \<ge> e \<longrightarrow>
        SimpleCache_get c k w = Inr (Some JNull))
   \<and> (localStorage w k = Some (JSON_stringify (cacheEntry e v)) \<longrightarrow> clock w < e \<longrightarrow>
        SimpleCache_get c k w = Inr (Some v))"
  by (simp add: isExpired_cacheEntry get_cacheEntry JSON_stringify_def)

theorem expired_iff_reached_witness:
  "SimpleCache_get store1 ''users_42''
     (worldWith (JSON_stringify (cacheEntry 1000 (JStr ''x''))) True) = Inr (Some JNull)
   \<and> SimpleCache_get store1 ''users_42''
     (worldWith (JSON_stringify (cacheEntry 1001 (JStr ''x''))) True) = Inr (Some (JStr ''x''))"
proof -
  have a: "localStorage (worldWith t True) ''users_42'' = Some t"
    and b: "clock (worldWith t True) = 1000" for t
    by (simp_all add: worldWith_def)
  from expired_iff_reached
        [of "worldWith (JSON_stringify (cacheEntry 1000 (JStr ''x''))) True" 1000 "JStr ''x''"
            0 "''users_42''" store1]
    expired_iff_reached
        [of "worldWith (JSON_stringify (cacheEntry 1001 (JStr ''x''))) True" 1001 "JStr ''x''"
            0 "''users_42''" store1]
  show ?thesis by (simp add: a b)
qed

text \<open>
  Claim C5, as the code has it. For a value \<open>v\<close> that is not already wrapped and minutes
  \<open>t > 0\<close>: once \<^verbatim>\<open>set(k, v, t)\<close> has stored its entry, \<^verbatim>\<open>get(k)\<close> returns \<open>v\<close>
  for as long as the item under \<open>k\<close> is the one stored and fewer than \<open>t\<close> minutes have
  passed.
\<close>

theorem set_then_get:
  assumes "\<not> alreadyWrapped v" and "0 < t"
    and "SimpleCache_set c k v (Some t) w = Inr w'"
    and "localStorage w'' k = localStorage w' k"
    and "clock w'' < clock w + 60000 * t"
  shows "SimpleCache_get c k w'' = Inr (Some v)"
proof -
  from assms(1,3)
  have "w' = w\<lparr>localStorage := (localStorage w)
                (k \<mapsto> JsonText (cacheEntry (clock w + 60000 * t) v))\<rparr>"
    by (auto simp: set_plain dest: storage_write_Inr)
  with assms(4)
  have "localStorage w'' k = Some (JsonText (cacheEntry (clock w + 60000 * t) v))"
    by simp
  from get_cacheEntry [OF this] assms(5) show ?thesis by simp
qed

theorem set_then_get_witness:
  "SimpleCache_set store1 ''k'' (JObj [(''id'', JNum 42)]) (Some 5) (emptyWorld 1000)
     = Inr (holding 1000 ''k'' (cacheEntry 301000 (JObj [(''id'', JNum 42)])))
   \<and> SimpleCache_get store1 ''k'' (holding 1000 ''k'' (cacheEntry 301000 (JObj [(''id'', JNum 42)])))
     = Inr (Some (JObj [(''id'', JNum 42)]))"
proof -
  let ?v = "JObj [(''id'', JNum 42)]"
  let ?w' = "holding 1000 ''k'' (cacheEntry 301000 ?v)"
  have h1: "\<not> alreadyWrapped ?v" by (simp add: alreadyWrapped_def)
  have h2: "(0::int) < 5" by simp
  have h3: "SimpleCache_set store1 ''k'' ?v (Some 5) (emptyWorld 1000) = Inr ?w'"
    by (simp add: SimpleCache_set_def applyExpirationDate_def JSON_stringify_def
        storage_write_def emptyWorld_def holding_def cacheEntry_def)
  have h4: "localStorage ?w' ''k'' = localStorage ?w' ''k''" by simp
  have h5: "clock ?w' < clock (emptyWorld 1000) + 60000 * 5"
    by (simp add: emptyWorld_def holding_def)
  from set_then_get [OF h1 h2 h3 h4 h5] h3 show ?thesis by simp
qed

text \<open>
  Claim C5 as stated fails for a value that is already wrapped: at time 1000,
  \<^verbatim>\<open>set(k, {expires: 1}, 5)\<close> stores the object as it is, and \<^verbatim>\<open>get(k)\<close> right
  after finds it expired and returns null.
\<close>

theorem set_then_get_counterexample:
  "(0 :: int) < 5
   \<and> SimpleCache_set store1 ''k'' (JObj [(''expires'', JNum 1)]) (Some 5) (emptyWorld 1000)
       = Inr (holding 1000 ''k'' (JObj [(''expires'', JNum 1)]))
   \<and> SimpleCache_get store1 ''k'' (holding 1000 ''k'' (JObj [(''expires'', JNum 1)]))
       = Inr (Some JNull)
   \<and> JNull \<noteq> JObj [(''expires'', JNum 1)]"
  by (simp add: SimpleCache_set_def applyExpirationDate_def JSON_stringify_def storage_write_def
      SimpleCache_get_def JSON_parse_def isExpired_def emptyWorld_def holding_def)

text \<open>
  Claim C6. What \<^verbatim>\<open>forever(k, v)\<close> stores has no \<^verbatim>\<open>expires\<close> field, and
  \<^verbatim>\<open>get(k)\<close> returns \<open>v\<close> at any time, in any later state of the browser in which
  the item under \<open>k\<close> is still the one stored.
\<close>

theorem forever_never_expires:
  assumes "forever c k v w = Inr w'"
  shows "localStorage w' k = Some (JSON_stringify (JObj [(''value'', v)]))
       \<and> persistedExpires w' k = None
       \<and> (\<forall>w''. localStorage w'' k = localStorage w' k \<longrightarrow>
              SimpleCache_get c k w'' = Inr (Some v))"
proof -
  from assms
  have w': "w' = w\<lparr>localStorage := (localStorage w)(k \<mapsto> JsonText (JObj [(''value'', v)]))\<rparr>"
    by (auto simp: forever_def JSON_stringify_def dest: storage_write_Inr)
  have "isExpired w'' (JObj [(''value'', v)]) = Inr False" for w''
    by (simp add: isExpired_def)
  then show ?thesis
    by (simp add: w' persistedExpires_def SimpleCache_get_def JSON_parse_def JSON_stringify_def)
qed

theorem forever_never_expires_witness:
  "forever store1 ''k'' (JNum 0) (emptyWorld 1000)
     = Inr (holding 1000 ''k'' (JObj [(''value'', JNum 0)]))
   \<and> SimpleCache_get store1 ''k'' (holding 4102444800000 ''k'' (JObj [(''value'', JNum 0)]))
     = Inr (Some (JNum 0))"
proof -
  let ?w' = "holding 1000 ''k'' (JObj [(''value'', JNum 0)])"
  have h: "forever store1 ''k'' (JNum 0) (emptyWorld 1000) = Inr ?w'"
    by (simp add: forever_def JSON_stringify_def storage_write_def emptyWorld_def holding_def)
  have "localStorage (holding 4102444800000 ''k'' (JObj [(''value'', JNum 0)])) ''k''
          = localStorage ?w' ''k''"
    by (simp add: holding_def)
  with forever_never_expires [OF h] h show ?thesis by simp
qed

section \<open>Properties of AngularOneDataFetcher\<close>

lemma storage_write_trace: "storage_write k t w = Inr w' \<Longrightarrow> trace w' = trace w"
  by (auto dest: storage_write_Inr)

lemma saveToCache_trace: "saveToCache f d ps w = Inr w' \<Longrightarrow> trace w' = trace w"
  by (auto simp: saveToCache_def SimpleCache_set_def forever_def Let_def
      split: option.splits duration.splits dest: storage_write_trace)

lemma getFromCache_store:
  "cacheService f = Some c \<Longrightarrow> getFromCache f ps w = SimpleCache_get c (buildKey f ps) w"
  by (simp add: getFromCache_def)

lemma fetchFromOrigin_Rejects:
  "fst (fetchingStrategy f ps) = Rejects e \<Longrightarrow>
   fst (fetchFromOrigin f ps w) = Rejected e \<and>
   trace (snd (fetchFromOrigin f ps w))
     = trace w @ shown f @ [Fetch ps] @ hidden f @ [Alert alertMessage]"
  by (cases "fetchingStrategy f ps")
     (simp add: fetchFromOrigin_def record_event_def shown_def hidden_def)

lemma fetchFromOrigin_Resolves:
  "fst (fetchingStrategy f ps) = Resolves d \<Longrightarrow>
   fst (fetchFromOrigin f ps w) = Resolved d \<and>
   trace (snd (fetchFromOrigin f ps w)) = trace w @ shown f @ [Fetch ps] @ hidden f"
  by (cases "fetchingStrategy f ps")
     (simp add: fetchFromOrigin_def record_event_def shown_def hidden_def)

lemma fetchFromOrigin_NeverSettles:
  "fst (fetchingStrategy f ps) = NeverSettles \<Longrightarrow>
   fst (fetchFromOrigin f ps w) = Pending \<and>
   trace (snd (fetchFromOrigin f ps w)) = trace w @ shown f @ [Fetch ps]"
  by (cases "fetchingStrategy f ps")
     (simp add: fetchFromOrigin_def record_event_def shown_def hidden_def)

lemma fetcher_get_miss:
  "getFromCache f ps w = Inr cached \<Longrightarrow> isMiss cached \<Longrightarrow>
   fetcher_get f ps w =
     (case fetchFromOrigin f ps w of
        (Resolved data, w1) \<Rightarrow>
          (case saveToCache f data ps w1 of
             Inl e \<Rightarrow> (Pending, w1)
           | Inr w2 \<Rightarrow> (Resolved data, w2))
      | (p, w1) \<Rightarrow> (p, w1))"
  by (auto simp: fetcher_get_def isMiss_def split: option.splits)

text \<open>What is not empty for \<^verbatim>\<open>_isEmpty\<close> is truthy.\<close>

lemma not_isEmpty_truthy: "\<not> isEmpty v \<Longrightarrow> truthy v"
  by (cases v) simp_all

lemma fetcher_get_hit:
  "getFromCache f ps w = Inr (Some v) \<Longrightarrow> \<not> isEmpty v \<Longrightarrow>
   fetcher_get f ps w = (Resolved v, w)"
  by (simp add: fetcher_get_def not_isEmpty_truthy)

text \<open>On a miss the fetching strategy is called once, whatever it answers.\<close>

lemma miss_fetches_once:
  assumes "getFromCache f ps w = Inr cached" and "isMiss cached"
  shows "calls isFetch (snd (fetcher_get f ps w)) = calls isFetch w + 1"
proof (cases "fst (fetchingStrategy f ps)")
  case (Resolves d)
  from fetchFromOrigin_Resolves [OF this, of w] show ?thesis
    by (cases "fetchFromOrigin f ps w")
      (auto simp: fetcher_get_miss [OF assms] calls_def shown_def hidden_def
        split: sum.splits dest: saveToCache_trace)
next
  case (Rejects e)
  from fetchFromOrigin_Rejects [OF this, of w] show ?thesis
    by (cases "fetchFromOrigin f ps w")
      (auto simp: fetcher_get_miss [OF assms] calls_def shown_def hidden_def)
next
  case NeverSettles
  from fetchFromOrigin_NeverSettles [OF this, of w] show ?thesis
    by (cases "fetchFromOrigin f ps w")
      (auto simp: fetcher_get_miss [OF assms] calls_def shown_def hidden_def)
qed

text \<open>On a miss the promise is resolved only with what the fetching strategy resolved with.\<close>

lemma miss_resolves_fetched:
  assumes "getFromCache f ps w = Inr cached" and "isMiss cached"
    and "fst (fetcher_get f ps w) = Resolved x"
  shows "fst (fetchingStrategy f ps) = Resolves x"
proof (cases "fst (fetchingStrategy f ps)")
  case (Resolves d)
  with fetchFromOrigin_Resolves [OF Resolves, of w] assms(3) show ?thesis
    by (cases "fetchFromOrigin f ps w")
      (auto simp: fetcher_get_miss [OF assms(1,2)] split: sum.splits)
next
  case (Rejects e)
  with fetchFromOrigin_Rejects [OF Rejects, of w] assms(3) show ?thesis
    by (cases "fetchFromOrigin f ps w")
      (auto simp: fetcher_get_miss [OF assms(1,2)])
next
  case NeverSettles
  with fetchFromOrigin_NeverSettles [OF NeverSettles, of w] assms(3) show ?thesis
    by (cases "fetchFromOrigin f ps w")
      (auto simp: fetcher_get_miss [OF assms(1,2)])
qed

lemma demo_key: "buildKey (demoFetcher outcome) [JStr ''42''] = ''users_42''"
  by (simp add: buildKey_def demoFetcher_def demoSnakeCase_def)

lemma demo_fields:
  "cacheService (demoFetcher outcome) = Some store1"
  "key (demoFetcher outcome) = Some ''users''"
  "ionicLoading (demoFetcher outcome) = True"
  "fetchingStrategy (demoFetcher outcome) ps = (outcome, 250)"
  by (simp_all add: demoFetcher_def)

lemma demo_get_entry:
  "SimpleCache_get store1 (buildKey (demoFetcher outcome) [JStr ''42''])
     (worldWith (JsonText (JObj [(''value'', v)])) writable) = Inr (Some v)"
  by (simp add: demo_key SimpleCache_get_def JSON_parse_def worldWith_def isExpired_def)

lemma demo_get_null:
  "getFromCache (demoFetcher outcome) [JStr ''42''] (worldWith (JsonText JNull) writable)
     = Inr (Some JNull)"
  by (simp add: getFromCache_def demo_fields demo_key SimpleCache_get_def JSON_parse_def
      worldWith_def)

text \<open>
  Claim C7. With a store and a base key configured, when the store's \<^verbatim>\<open>get\<close> for the
  key built from the parameters returns a value that is not empty, the fetcher's
  \<^verbatim>\<open>get\<close> resolves with that value and changes nothing: the fetching strategy is not
  called and the loading indicator is not shown.
\<close>

theorem cache_hit_resolves_cached:
  assumes "cacheService f = Some c" and "key f = Some b"
    and "SimpleCache_get c (buildKey f params) w = Inr (Some v)"
    and "\<not> isEmpty v"
  shows "fetcher_get f params w = (Resolved v, w)
       \<and> calls isFetch (snd (fetcher_get f params w)) = calls isFetch w
       \<and> calls isShow (snd (fetcher_get f params w)) = calls isShow w"
proof -
  from assms(1,3) have "getFromCache f params w = Inr (Some v)"
    by (simp add: getFromCache_store)
  from fetcher_get_hit [OF this assms(4)] show ?thesis by simp
qed

theorem cache_hit_resolves_cached_witness:
  "fetcher_get (demoFetcher (Resolves JNull)) [JStr ''42'']
     (worldWith (JsonText (cacheEntry 61000 (JObj [(''id'', JNum 42)]))) True)
   = (Resolved (JObj [(''id'', JNum 42)]),
      worldWith (JsonText (cacheEntry 61000 (JObj [(''id'', JNum 42)]))) True)"
proof -
  let ?w = "worldWith (JsonText (cacheEntry 61000 (JObj [(''id'', JNum 42)]))) True"
  have g: "SimpleCache_get store1 (buildKey (demoFetcher (Resolves JNull)) [JStr ''42'']) ?w
           = Inr (Some (JObj [(''id'', JNum 42)]))"
    by (simp add: demo_key get_cacheEntry worldWith_def)
  have e: "\<not> isEmpty (JObj [(''id'', JNum 42)])"
    by simp
  from cache_hit_resolves_cached [OF demo_fields(1) demo_fields(2) g e] show ?thesis by simp
qed

text \<open>
  Claim C8. With a store and a base key configured, when the cached value for the key
  built from the parameters is an empty object or an empty array, the fetcher's
  \<^verbatim>\<open>get\<close> calls the fetching strategy once more, and if its promise is resolved, it
  is with what the strategy resolved with.
\<close>

theorem empty_cached_value_refetched:
  assumes "cacheService f = Some c" and "key f = Some b"
    and "SimpleCache_get c (buildKey f params) w = Inr (Some v)"
    and "v = JObj [] \<or> v = JArr []"
  shows "calls isFetch (snd (fetcher_get f params w)) = calls isFetch w + 1
       \<and> (\<forall>x. fst (fetcher_get f params w) = Resolved x \<longrightarrow>
               fst (fetchingStrategy f params) = Resolves x)"
proof -
  from assms(1,3) have g: "getFromCache f params w = Inr (Some v)"
    by (simp add: getFromCache_store)
  from assms(4) have m: "isMiss (Some v)" by (auto simp: isMiss_def)
  from miss_fetches_once [OF g m] miss_resolves_fetched [OF g m] show ?thesis by blast
qed

theorem empty_cached_value_refetched_witness:
  "calls isFetch (snd (fetcher_get (demoFetcher (Resolves (JStr ''fresh''))) [JStr ''42'']
                        (worldWith (JsonText (JObj [(''value'', JObj [])])) True))) = 1"
proof -
  have h: "JObj [] = JObj [] \<or> JObj [] = JArr []" by simp
  have "calls isFetch (worldWith t True) = 0" for t
    by (simp add: calls_def worldWith_def)
  with empty_cached_value_refetched [OF demo_fields(1) demo_fields(2) demo_get_entry h]
  show ?thesis by simp
qed

text \<open>
  Claim C10. With a store and a base key configured, a cached value that is null, a
  boolean or a number is empty for \<^verbatim>\<open>_isEmpty\<close>; the fetcher's \<^verbatim>\<open>get\<close> never
  resolves with it from the cache and calls the fetching strategy once more.
\<close>

theorem primitive_cached_value_refetched:
  assumes "cacheService f = Some c" and "key f = Some b"
    and "SimpleCache_get c (buildKey f params) w = Inr (Some v)"
    and "nonCollectionPrimitive v"
  shows "isEmpty v
       \<and> calls isFetch (snd (fetcher_get f params w)) = calls isFetch w + 1
       \<and> (\<forall>x. fst (fetcher_get f params w) = Resolved x \<longrightarrow>
               fst (fetchingStrategy f params) = Resolves x)"
proof -
  from assms(1,3) have g: "getFromCache f params w = Inr (Some v)"
    by (simp add: getFromCache_store)
  from assms(4) have e: "isEmpty v"
    by (cases v) (simp_all add: nonCollectionPrimitive_def)
  then have m: "isMiss (Some v)" by (simp add: isMiss_def)
  from miss_fetches_once [OF g m] miss_resolves_fetched [OF g m] e show ?thesis by blast
qed

theorem primitive_cached_value_refetched_witness:
  "isEmpty (JNum 42)
   \<and> calls isFetch (snd (fetcher_get (demoFetcher (Resolves (JStr ''fresh''))) [JStr ''42'']
                          (worldWith (JsonText (JObj [(''value'', JNum 42)])) True))) = 1"
proof -
  have h: "nonCollectionPrimitive (JNum 42)" by (simp add: nonCollectionPrimitive_def)
  have "calls isFetch (worldWith t True) = 0" for t
    by (simp add: calls_def worldWith_def)
  with primitive_cached_value_refetched [OF demo_fields(1) demo_fields(2) demo_get_entry h]
  show ?thesis by simp
qed

text \<open>
  Claim C3, as the code has it. When the fetching strategy resolves with \<open>d\<close> and saving
  \<open>d\<close> to the cache does not raise, \<^verbatim>\<open>refresh\<close> resolves with \<open>d\<close>, and so does
  \<^verbatim>\<open>get\<close> on a miss.
\<close>

theorem fetched_data_resolved_when_saved:
  assumes "fst (fetchingStrategy f params) = Resolves d"
    and "saveToCache f d params (snd (fetchFromOrigin f params w)) = Inr w2"
  shows "refresh f params w = (Resolved d, w2)
       \<and> (\<forall>cached. getFromCache f params w = Inr cached \<longrightarrow> isMiss cached \<longrightarrow>
             fetcher_get f params w = (Resolved d, w2))"
proof -
  from fetchFromOrigin_Resolves [OF assms(1), of w]
  obtain w1 where w1: "fetchFromOrigin f params w = (Resolved d, w1)"
    by (cases "fetchFromOrigin f params w") auto
  with assms(2) have s: "saveToCache f d params w1 = Inr w2" by simp
  have "refresh f params w = (Resolved d, w2)"
    by (simp add: refresh_def w1 s)
  moreover have "fetcher_get f params w = (Resolved d, w2)"
    if "getFromCache f params w = Inr cached" "isMiss cached" for cached
    by (simp add: fetcher_get_miss [OF that] w1 s)
  ultimately show ?thesis by blast
qed

theorem fetched_data_resolved_when_saved_witness:
  "fst (refresh (demoFetcher (Resolves (JStr ''d''))) [JStr ''42'']
          (worldWith (JsonText JNull) True)) = Resolved (JStr ''d'')
   \<and> fst (fetcher_get (demoFetcher (Resolves (JStr ''d''))) [JStr ''42'']
          (worldWith (JsonText JNull) True)) = Resolved (JStr ''d'')"
proof -
  let ?f = "demoFetcher (Resolves (JStr ''d''))"
  let ?w = "worldWith (JsonText JNull) True"
  have h1: "fst (fetchingStrategy ?f [JStr ''42'']) = Resolves (JStr ''d'')"
    by (simp add: demo_fields)
  have "\<exists>w2. saveToCache ?f (JStr ''d'') [JStr ''42''] (snd (fetchFromOrigin ?f [JStr ''42''] ?w))
              = Inr w2"
    by (simp add: saveToCache_def SimpleCache_set_def storage_write_def fetchFromOrigin_def
        record_event_def demoFetcher_def worldWith_def)
  then obtain w2
    where h2: "saveToCache ?f (JStr ''d'') [JStr ''42''] (snd (fetchFromOrigin ?f [JStr ''42''] ?w))
               = Inr w2" ..
  have m: "isMiss (Some JNull)" by (simp add: isMiss_def)
  from fetched_data_resolved_when_saved [OF h1 h2] demo_get_null [of "Resolves (JStr ''d'')" True] m
  show ?thesis by simp
qed

text \<open>
  Claim C3 as stated fails when the storage refuses the write. The fetching strategy
  resolves with \<^verbatim>\<open>"d"\<close>; \<^verbatim>\<open>refresh\<close> rejects with the exception of the write,
  and the promise of \<^verbatim>\<open>get\<close> is never settled.
\<close>

theorem cache_write_failure_counterexample:
  "fst (fetchingStrategy (demoFetcher (Resolves (JStr ''d''))) [JStr ''42''])
     = Resolves (JStr ''d'')
   \<and> fst (refresh (demoFetcher (Resolves (JStr ''d''))) [JStr ''42'']
            (worldWith (JsonText JNull) False)) = RejectedWith QuotaExceededError
   \<and> fst (fetcher_get (demoFetcher (Resolves (JStr ''d''))) [JStr ''42'']
            (worldWith (JsonText JNull) False)) = Pending"
  by (simp add: demoFetcher_def refresh_def fetcher_get_def fetchFromOrigin_def saveToCache_def
      getFromCache_def SimpleCache_get_def SimpleCache_set_def JSON_parse_def storage_write_def
      buildKey_def demoSnakeCase_def worldWith_def record_event_def)

text \<open>
  Claim C9. When the fetching strategy rejects with \<open>e\<close>, \<^verbatim>\<open>refresh\<close> rejects with
  \<open>e\<close>, and so does \<^verbatim>\<open>get\<close> on a miss; the calls made are: show (if there is a loading
  indicator), the fetching strategy, hide (if there is a loading indicator), one alert.
  When the strategy resolves, the calls are the same without the alert. On both paths
  there are as many new calls of hide as of show.
\<close>

theorem fetch_failure_path:
  "(fst (fetchingStrategy f params) = Rejects e \<longrightarrow>
      fst (refresh f params w) = Rejected e
      \<and> trace (snd (refresh f params w))
          = trace w @ shown f @ [Fetch params] @ hidden f @ [Alert alertMessage]
      \<and> calls isAlert (snd (refresh f params w)) = calls isAlert w + 1
      \<and> calls isHide (snd (refresh f params w)) + calls isShow w
          = calls isShow (snd (refresh f params w)) + calls isHide w
      \<and> (\<forall>cached. getFromCache f params w = Inr cached \<longrightarrow> isMiss cached \<longrightarrow>
            fetcher_get f params w = refresh f params w))
   \<and> (fst (fetchingStrategy f params) = Resolves d \<longrightarrow>
      trace (snd (refresh f params w)) = trace w @ shown f @ [Fetch params] @ hidden f
      \<and> calls isHide (snd (refresh f params w)) + calls isShow w
          = calls isShow (snd (refresh f params w)) + calls isHide w
      \<and> (\<forall>cached. getFromCache f params w = Inr cached \<longrightarrow> isMiss cached \<longrightarrow>
            trace (snd (fetcher_get f params w))
              = trace w @ shown f @ [Fetch params] @ hidden f))"
proof (intro conjI impI allI)
  assume r: "fst (fetchingStrategy f params) = Rejects e"
  from fetchFromOrigin_Rejects [OF r, of w]
  obtain w1 where w1: "fetchFromOrigin f params w = (Rejected e, w1)"
    and t: "trace w1 = trace w @ shown f @ [Fetch params] @ hidden f @ [Alert alertMessage]"
    by (cases "fetchFromOrigin f params w") auto
  have rf: "refresh f params w = (Rejected e, w1)" by (simp add: refresh_def w1)
  show "fst (refresh f params w) = Rejected e" by (simp add: rf)
  show "trace (snd (refresh f params w))
          = trace w @ shown f @ [Fetch params] @ hidden f @ [Alert alertMessage]"
    by (simp add: rf t)
  show "calls isAlert (snd (refresh f params w)) = calls isAlert w + 1"
    by (simp add: rf t calls_def shown_def hidden_def)
  show "calls isHide (snd (refresh f params w)) + calls isShow w
          = calls isShow (snd (refresh f params w)) + calls isHide w"
    by (simp add: rf t calls_def shown_def hidden_def)
  show "fetcher_get f params w = refresh f params w"
    if "getFromCache f params w = Inr cached" "isMiss cached" for cached
    by (simp add: fetcher_get_miss [OF that] w1 rf)
next
  assume r: "fst (fetchingStrategy f params) = Resolves d"
  from fetchFromOrigin_Resolves [OF r, of w]
  obtain w1 where w1: "fetchFromOrigin f params w = (Resolved d, w1)"
    and t: "trace w1 = trace w @ shown f @ [Fetch params] @ hidden f"
    by (cases "fetchFromOrigin f params w") auto
  show tr: "trace (snd (refresh f params w)) = trace w @ shown f @ [Fetch params] @ hidden f"
    by (auto simp: refresh_def w1 t split: sum.splits dest: saveToCache_trace)
  show "calls isHide (snd (refresh f params w)) + calls isShow w
          = calls isShow (snd (refresh f params w)) + calls isHide w"
    by (simp add: calls_def tr shown_def hidden_def)
  show "trace (snd (fetcher_get f params w)) = trace w @ shown f @ [Fetch params] @ hidden f"
    if "getFromCache f params w = Inr cached" "isMiss cached" for cached
    by (auto simp: fetcher_get_miss [OF that] w1 t split: sum.splits dest: saveToCache_trace)
qed

theorem fetch_failure_path_witness:
  "fst (fetcher_get (demoFetcher (Rejects (JStr ''network error''))) [JStr ''42'']
          (worldWith (JsonText JNull) True)) = Rejected (JStr ''network error'')
   \<and> trace (snd (fetcher_get (demoFetcher (Rejects (JStr ''network error''))) [JStr ''42'']
          (worldWith (JsonText JNull) True)))
       = [Show, Fetch [JStr ''42''], Hide, Alert alertMessage]
   \<and> calls isAlert (snd (fetcher_get (demoFetcher (Rejects (JStr ''network error'')))
          [JStr ''42''] (worldWith (JsonText JNull) True))) = 1"
proof -
  let ?f = "demoFetcher (Rejects (JStr ''network error''))"
  let ?w = "worldWith (JsonText JNull) True"
  have h: "fst (fetchingStrategy ?f [JStr ''42'']) = Rejects (JStr ''network error'')"
    by (simp add: demo_fields)
  have m: "isMiss (Some JNull)" by (simp add: isMiss_def)
  have z: "trace ?w = []" "calls isAlert ?w = 0"
    by (simp_all add: calls_def worldWith_def)
  from fetch_failure_path [of ?f "[JStr ''42'']" "JStr ''network error''" ?w JNull]
    h demo_get_null [of "Rejects (JStr ''network error'')" True] m
  show ?thesis by (simp add: z shown_def hidden_def demo_fields)
qed

end
